theory Spec2Isabelle
  imports Complex_Main
begin

section \<open>JavaScript values\<close>

text \<open>
  The component \<open>App\<close> of \<open>frontend/src/App.js\<close> handles values decoded from JSON
  response bodies. A decoded object is an association list; the value of a property is
  the first binding of its name. A number is the rational value of the finite double.
\<close>

datatype jsval =
    JUndefined
  | JNull
  | JBool bool
  | JNum rat
  | JStr string
  | JArr "jsval list"
  | JObj "(string \<times> jsval) list"

datatype js_error = TypeError | FetchFailed | JsonSyntaxError

text \<open>The truthiness test of \<open>if (v)\<close>, \<open>!v\<close>, \<open>a || b\<close> and \<open>a && b\<close>.\<close>

fun truthy :: "jsval \<Rightarrow> bool" where
  "truthy JUndefined = False"
| "truthy JNull = False"
| "truthy (JBool b) = b"
| "truthy (JNum x) = (x \<noteq> 0)"
| "truthy (JStr s) = (s \<noteq> [])"
| "truthy (JArr xs) = True"
| "truthy (JObj kvs) = True"

definition js_or :: "jsval \<Rightarrow> jsval \<Rightarrow> jsval" where
  "js_or a b = (if truthy a then a else b)"

fun nullish :: "jsval \<Rightarrow> bool" where
  "nullish JUndefined = True"
| "nullish JNull = True"
| "nullish v = False"

text \<open>
  Property access \<open>v.name\<close> and \<open>v[0]\<close> (the name \<open>''0''\<close>), for the names the component
  reads: none of them is defined on a built-in prototype except \<open>length\<close> and the
  indices of arrays and strings. Reading a property of \<open>undefined\<close> or \<open>null\<close> throws.
\<close>

fun get_prop :: "jsval \<Rightarrow> string \<Rightarrow> js_error + jsval" where
  "get_prop JUndefined name = Inl TypeError"
| "get_prop JNull name = Inl TypeError"
| "get_prop (JBool b) name = Inr JUndefined"
| "get_prop (JNum x) name = Inr JUndefined"
| "get_prop (JStr s) name =
     (if name = ''length'' then Inr (JNum (of_nat (length s)))
      else if name = ''0'' then (case s of [] \<Rightarrow> Inr JUndefined | c # _ \<Rightarrow> Inr (JStr [c]))
      else Inr JUndefined)"
| "get_prop (JArr xs) name =
     (if name = ''length'' then Inr (JNum (of_nat (length xs)))
      else if name = ''0'' then (case xs of [] \<Rightarrow> Inr JUndefined | x # _ \<Rightarrow> Inr x)
      else Inr JUndefined)"
| "get_prop (JObj kvs) name =
     (case map_of kvs name of None \<Rightarrow> Inr JUndefined | Some v \<Rightarrow> Inr v)"

text \<open>
  What the component leaves to the JavaScript runtime: the comparison \<open>v > n\<close> when
  \<open>v\<close> is a string, an array or an object (it converts \<open>v\<close> to a number first, which
  can throw); the text of \<open>(v * 100).toFixed(1)\<close>, a floating-point product and its
  decimal rounding; and the text of a number, an array or an object inside a template
  literal. The three are parameters of the model.
\<close>

record runtime =
  coerce_gt :: "jsval \<Rightarrow> rat \<Rightarrow> js_error + bool"
  percent_text :: "jsval \<Rightarrow> js_error + string"
  text_of :: "jsval \<Rightarrow> js_error + string"

fun js_gt :: "runtime \<Rightarrow> jsval \<Rightarrow> rat \<Rightarrow> js_error + bool" where
  "js_gt rt JUndefined n = Inr False"
| "js_gt rt JNull n = Inr (n < 0)"
| "js_gt rt (JBool b) n = Inr (n < (if b then 1 else 0))"
| "js_gt rt (JNum x) n = Inr (n < x)"
| "js_gt rt v n = coerce_gt rt v n"

text \<open>\<open>${v}\<close> in a template literal.\<close>

fun js_to_string :: "runtime \<Rightarrow> jsval \<Rightarrow> js_error + string" where
  "js_to_string rt JUndefined = Inr ''undefined''"
| "js_to_string rt JNull = Inr ''null''"
| "js_to_string rt (JBool b) = Inr (if b then ''true'' else ''false'')"
| "js_to_string rt (JStr s) = Inr s"
| "js_to_string rt v = text_of rt v"

text \<open>
  \<open>v.replace('-', '')\<close>: on a string, the first hyphen is removed; no other value the
  component can hold has a \<open>replace\<close> method.
\<close>

fun js_replace_hyphen :: "jsval \<Rightarrow> js_error + string" where
  "js_replace_hyphen (JStr s) = Inr (remove1 (CHR ''-'') s)"
| "js_replace_hyphen v = Inl TypeError"

section \<open>The state of the component\<close>

record filter_selection =
  language :: string
  sentiment :: string
  bias :: string

datatype filter_field = Language | Sentiment | Bias

text \<open>
  A call of \<open>fetch\<close>: the method, the URL before the query string, and the entries of the
  \<open>URLSearchParams\<close> in the order they were appended.
\<close>

datatype request =
    GET string "(string \<times> string) list"
  | POST string "(string \<times> string) list"

text \<open>
  The six \<open>useState\<close> cells of lines 5 to 14, and the calls of \<open>fetch\<close> made so far, in
  order (\<open>fetch_log\<close> is not a cell of the component: it records what was sent).
\<close>

record app_state =
  articles :: jsval
  loading :: bool
  searchQuery :: string
  filters :: filter_selection
  ingesting :: bool
  ingestStatus :: jsval
  fetch_log :: "request list"

text \<open>How an awaited \<open>fetch(...)\<close> followed by \<open>response.json()\<close> ends.\<close>

datatype fetch_outcome =
    Rejected
  | BadJson
  | Parsed jsval

section \<open>Statements\<close>

text \<open>
  A statement runs on a state and leaves a state, together with the exception it threw,
  if any. Sequencing stops at the first exception; \<open>try_catch\<close> runs the handler on the
  state the body left.
\<close>

type_synonym prog = "app_state \<Rightarrow> js_error option \<times> app_state"

definition skip :: prog where
  "skip s = (None, s)"

definition throw :: "js_error \<Rightarrow> prog" where
  "throw e s = (Some e, s)"

definition seq :: "prog \<Rightarrow> prog \<Rightarrow> prog" where
  "seq p q s = (case p s of (Some e, s') \<Rightarrow> (Some e, s') | (None, s') \<Rightarrow> q s')"

definition try_catch :: "prog \<Rightarrow> (js_error \<Rightarrow> prog) \<Rightarrow> prog" where
  "try_catch body handler s =
     (case body s of (None, s') \<Rightarrow> (None, s') | (Some e, s') \<Rightarrow> handler e s')"

definition evaluate :: "js_error + 'a \<Rightarrow> ('a \<Rightarrow> prog) \<Rightarrow> prog" where
  "evaluate r k s = (case r of Inl e \<Rightarrow> (Some e, s) | Inr v \<Rightarrow> k v s)"

definition setArticles :: "jsval \<Rightarrow> prog" where
  "setArticles v s = (None, s\<lparr>articles := v\<rparr>)"

definition setLoading :: "bool \<Rightarrow> prog" where
  "setLoading b s = (None, s\<lparr>loading := b\<rparr>)"

definition setSearchQuery :: "string \<Rightarrow> prog" where
  "setSearchQuery v s = (None, s\<lparr>searchQuery := v\<rparr>)"

definition setFilters :: "filter_selection \<Rightarrow> prog" where
  "setFilters f s = (None, s\<lparr>filters := f\<rparr>)"

definition setIngesting :: "bool \<Rightarrow> prog" where
  "setIngesting b s = (None, s\<lparr>ingesting := b\<rparr>)"

definition setIngestStatus :: "jsval \<Rightarrow> prog" where
  "setIngestStatus v s = (None, s\<lparr>ingestStatus := v\<rparr>)"

text \<open>
  \<open>send\<close> is the call of \<open>fetch\<close>; \<open>receive\<close> is the two awaits that follow it, binding
  the decoded body or throwing.
\<close>

definition send :: "request \<Rightarrow> prog" where
  "send req s = (None, s\<lparr>fetch_log := fetch_log s @ [req]\<rparr>)"

definition receive :: "fetch_outcome \<Rightarrow> (jsval \<Rightarrow> prog) \<Rightarrow> prog" where
  "receive outcome k s =
     (case outcome of
        Rejected \<Rightarrow> (Some FetchFailed, s)
      | BadJson \<Rightarrow> (Some JsonSyntaxError, s)
      | Parsed data \<Rightarrow> k data s)"

section \<open>fetchArticles (lines 17 to 53)\<close>

text \<open>Lines 20 to 25: the parameters of the search request.\<close>

definition build_params :: "string \<Rightarrow> filter_selection \<Rightarrow> (string \<times> string) list" where
  "build_params query currentFilters =
     (if query \<noteq> [] then [(''q'', query)] else []) @
     (if language currentFilters \<noteq> [] then [(''language'', language currentFilters)] else []) @
     (if sentiment currentFilters \<noteq> [] then [(''sentiment'', sentiment currentFilters)] else []) @
     (if bias currentFilters \<noteq> [] then [(''bias'', bias currentFilters)] else []) @
     [(''size'', ''20'')]"

definition search_request :: "string \<Rightarrow> filter_selection \<Rightarrow> request" where
  "search_request query currentFilters =
     GET ''http://localhost:8000/articles/search'' (build_params query currentFilters)"

text \<open>
  Lines 35 to 45 only print, but they read \<open>data.results\<close>, compare its \<open>length\<close> with 0
  and pass \<open>data.results[0]\<close> to \<open>Object.keys\<close>, which throws on \<open>null\<close> and
  \<open>undefined\<close>; each of these can throw inside the \<open>try\<close>.
\<close>

definition debug_log :: "runtime \<Rightarrow> jsval \<Rightarrow> prog" where
  "debug_log rt data =
     evaluate (get_prop data ''results'') (\<lambda>r.
       if \<not> truthy r then skip
       else evaluate (get_prop r ''length'') (\<lambda>len.
         evaluate (js_gt rt len 0) (\<lambda>positive.
           if \<not> positive then skip
           else evaluate (get_prop r ''0'') (\<lambda>first.
             if nullish first then throw TypeError else skip))))"

text \<open>
  \<open>outcome\<close> is how the request of line 29 and the decoding of line 30 end. The request
  is taken to end: while it does not, \<open>loading\<close> stays true.
\<close>

definition fetchArticles ::
  "runtime \<Rightarrow> string \<Rightarrow> filter_selection \<Rightarrow> fetch_outcome \<Rightarrow> prog" where
  "fetchArticles rt query currentFilters outcome =
     seq (setLoading True)
      (seq (try_catch
              (seq (send (search_request query currentFilters))
                 (receive outcome (\<lambda>data.
                    seq (debug_log rt data)
                      (evaluate (get_prop data ''results'') (\<lambda>r.
                         setArticles (js_or r (JArr [])))))))
              (\<lambda>error. setArticles (JArr [])))
         (setLoading False))"

section \<open>ingestArticles (lines 56 to 77)\<close>

definition ingest_request :: request where
  "ingest_request = POST ''http://localhost:8000/ingest/run?limit_per_feed=20'' []"

definition ingest_failed :: jsval where
  "ingest_failed = JObj [(''error'', JStr ''Failed to ingest articles'')]"

text \<open>
  \<open>searchQuery\<close> and \<open>filters\<close> in the body are the constants of the render that created
  the handler: the cells of the state the handler is invoked on. \<open>search_outcome\<close> is how
  the request of the awaited \<open>fetchArticles\<close> ends, when line 70 is reached.
\<close>

definition ingestArticles :: "runtime \<Rightarrow> fetch_outcome \<Rightarrow> fetch_outcome \<Rightarrow> prog" where
  "ingestArticles rt outcome search_outcome s =
     seq (setIngesting True)
      (seq (setIngestStatus JNull)
        (seq (try_catch
                (seq (send ingest_request)
                   (receive outcome (\<lambda>data.
                      seq (setIngestStatus data)
                        (evaluate (get_prop data ''error'') (\<lambda>err.
                           if \<not> truthy err
                           then fetchArticles rt (searchQuery s) (filters s) search_outcome
                           else skip)))))
                (\<lambda>error. setIngestStatus ingest_failed))
           (setIngesting False))) s"

section \<open>handleSearch, handleFilterChange and the mount effect (lines 80 to 97)\<close>

definition handleSearch :: "runtime \<Rightarrow> fetch_outcome \<Rightarrow> prog" where
  "handleSearch rt outcome s = fetchArticles rt (searchQuery s) (filters s) outcome s"

text \<open>Line 87, \<open>{ ...filters, [filterType]: value }\<close>, for the three names the selects pass.\<close>

fun set_field :: "filter_field \<Rightarrow> string \<Rightarrow> filter_selection \<Rightarrow> filter_selection" where
  "set_field Language v f = f\<lparr>language := v\<rparr>"
| "set_field Sentiment v f = f\<lparr>sentiment := v\<rparr>"
| "set_field Bias v f = f\<lparr>bias := v\<rparr>"

definition handleFilterChange ::
  "runtime \<Rightarrow> filter_field \<Rightarrow> string \<Rightarrow> fetch_outcome \<Rightarrow> prog" where
  "handleFilterChange rt filterType v outcome s =
     (let newFilters = set_field filterType v (filters s)
      in seq (setFilters newFilters)
           (fetchArticles rt (searchQuery s) newFilters outcome) s)"

text \<open>
  The state of the first render (lines 5 to 14) and the effect of line 96:
  \<open>fetchArticles()\<close> takes the defaults of line 17, the empty query and \<open>filters\<close>.
\<close>

definition initial_state :: app_state where
  "initial_state =
     \<lparr>articles = JArr [], loading = False, searchQuery = [],
      filters = \<lparr>language = [], sentiment = [], bias = []\<rparr>,
      ingesting = False, ingestStatus = JNull, fetch_log = []\<rparr>"

definition mount :: "runtime \<Rightarrow> fetch_outcome \<Rightarrow> prog" where
  "mount rt outcome s = fetchArticles rt [] (filters s) outcome s"

section \<open>The element tree (lines 99 to 276)\<close>

text \<open>
  What \<open>App\<close> returns is a tree of elements. A child written in braces is a JavaScript
  value; an attribute is a value or one of the handlers of the component.
\<close>

datatype action = IngestArticles | HandleSearch | SetSearchQuery | HandleFilterChange filter_field

datatype attr = Attr jsval | On action

datatype node =
    Val jsval
  | Text string
  | Elem string "(string \<times> attr) list" "node list"
  | Many "node list"

definition js_and :: "jsval \<Rightarrow> (js_error + jsval) \<Rightarrow> js_error + jsval" where
  "js_and a b = (if truthy a then b else Inr a)"

text \<open>Lines 111 to 117: the ingest button.\<close>

definition ingest_button :: "app_state \<Rightarrow> node" where
  "ingest_button s =
     Elem ''button''
       [(''onClick'', On IngestArticles),
        (''disabled'', Attr (JBool (ingesting s))),
        (''className'', Attr (JStr (''ingest-btn '' @ (if ingesting s then ''loading'' else []))))]
       [Val (JStr (if ingesting s then ''Ingesting...'' else ''Ingest New Articles''))]"

text \<open>Lines 130 to 137: the search box and its button.\<close>

definition search_input :: "app_state \<Rightarrow> node" where
  "search_input s =
     Elem ''input''
       [(''type'', Attr (JStr ''text'')),
        (''placeholder'', Attr (JStr ''Search articles...'')),
        (''value'', Attr (JStr (searchQuery s))),
        (''onChange'', On SetSearchQuery),
        (''onKeyPress'', On HandleSearch)] []"

definition search_button :: node where
  "search_button = Elem ''button'' [(''onClick'', On HandleSearch)] [Text ''Search'']"

text \<open>Lines 141 to 170: the three selects; \<open>options\<close> are their (value, label) pairs.\<close>

definition option_node :: "string \<times> string \<Rightarrow> node" where
  "option_node vl = Elem ''option'' [(''value'', Attr (JStr (fst vl)))] [Text (snd vl)]"

definition select_node :: "filter_field \<Rightarrow> string \<Rightarrow> (string \<times> string) list \<Rightarrow> node" where
  "select_node field current options =
     Elem ''select''
       [(''value'', Attr (JStr current)), (''onChange'', On (HandleFilterChange field))]
       (map option_node options)"

definition language_select :: "app_state \<Rightarrow> node" where
  "language_select s =
     select_node Language (language (filters s))
       [([], ''All Languages''), (''en'', ''English''), (''hi'', ''Hindi'')]"

definition sentiment_select :: "app_state \<Rightarrow> node" where
  "sentiment_select s =
     select_node Sentiment (sentiment (filters s))
       [([], ''All Sentiments''), (''positive'', ''Positive''), (''neutral'', ''Neutral''),
        (''negative'', ''Negative'')]"

definition bias_select :: "app_state \<Rightarrow> node" where
  "bias_select s =
     select_node Bias (bias (filters s))
       [([], ''All Bias Types''), (''neutral'', ''Neutral''),
        (''left-leaning'', ''Left-leaning''), (''right-leaning'', ''Right-leaning''),
        (''pro-government'', ''Pro-government''), (''anti-government'', ''Anti-government'')]"

text \<open>
  The elements of the returned tree that carry a handler, in document order. While
  \<open>loading\<close> holds, lines 99 to 105 return the placeholder alone, which has none.
\<close>

definition controls :: "app_state \<Rightarrow> node list" where
  "controls s =
     (if loading s then []
      else [ingest_button s, search_input s, search_button,
            language_select s, sentiment_select s, bias_select s])"

text \<open>
  The browser delivers an event to an element's handler unless the element is disabled.
\<close>

fun handles :: "action \<Rightarrow> node \<Rightarrow> bool" where
  "handles a (Elem tag attrs children) =
     (On a \<in> snd ` set attrs \<and>
      (case map_of attrs ''disabled'' of Some (Attr v) \<Rightarrow> \<not> truthy v | _ \<Rightarrow> True))"
| "handles a n = False"

definition offers :: "app_state \<Rightarrow> action \<Rightarrow> bool" where
  "offers s a = list_ex (handles a) (controls s)"

subsection \<open>The badges and the entities of an article card\<close>

text \<open>
  Lines 230 and 234: \<open>score && ` (${(score * 100).toFixed(1)}%)`\<close>. When the score is
  falsy the value of the expression is the score itself.
\<close>

definition score_suffix :: "runtime \<Rightarrow> jsval \<Rightarrow> js_error + jsval" where
  "score_suffix rt score =
     js_and score
       (case percent_text rt score of
          Inl e \<Rightarrow> Inl e
        | Inr t \<Rightarrow> Inr (JStr ('' ('' @ t @ ''%)'')))"

text \<open>Lines 228 to 231: the sentiment badge.\<close>

definition sentiment_badge :: "runtime \<Rightarrow> jsval \<Rightarrow> js_error + node" where
  "sentiment_badge rt article =
     (case get_prop article ''sentiment_overall'' of
        Inl e \<Rightarrow> Inl e
      | Inr overall \<Rightarrow>
          (case js_to_string rt (js_or overall (JStr ''unknown'')) of
             Inl e \<Rightarrow> Inl e
           | Inr suffix_class \<Rightarrow>
               (case get_prop article ''sentiment_score'' of
                  Inl e \<Rightarrow> Inl e
                | Inr score \<Rightarrow>
                    (case score_suffix rt score of
                       Inl e \<Rightarrow> Inl e
                     | Inr suffix \<Rightarrow>
                         Inr (Elem ''span''
                                [(''className'',
                                  Attr (JStr (''badge sentiment-'' @ suffix_class)))]
                                [Text ''Sentiment: '',
                                 Val (js_or overall (JStr ''Unknown'')),
                                 Val suffix])))))"

text \<open>Lines 232 to 235: the bias badge.\<close>

definition bias_badge :: "runtime \<Rightarrow> jsval \<Rightarrow> js_error + node" where
  "bias_badge rt article =
     (case get_prop article ''bias_overall'' of
        Inl e \<Rightarrow> Inl e
      | Inr overall \<Rightarrow>
          (case js_replace_hyphen (js_or overall (JStr ''unknown'')) of
             Inl e \<Rightarrow> Inl e
           | Inr suffix_class \<Rightarrow>
               (case get_prop article ''bias_score'' of
                  Inl e \<Rightarrow> Inl e
                | Inr score \<Rightarrow>
                    (case score_suffix rt score of
                       Inl e \<Rightarrow> Inl e
                     | Inr suffix \<Rightarrow>
                         Inr (Elem ''span''
                                [(''className'', Attr (JStr (''badge bias-'' @ suffix_class)))]
                                [Text ''Bias: '',
                                 Val (js_or overall (JStr ''Unknown'')),
                                 Val suffix])))))"

text \<open>Lines 258 to 260: one tag; \<open>entity.name\<close> throws on \<open>null\<close>.\<close>

definition entity_tag :: "nat \<Rightarrow> jsval \<Rightarrow> js_error + node" where
  "entity_tag entityIdx entity =
     (case get_prop entity ''name'' of
        Inl e \<Rightarrow> Inl e
      | Inr name \<Rightarrow>
          (case get_prop entity ''type'' of
             Inl e \<Rightarrow> Inl e
           | Inr type \<Rightarrow>
               Inr (Elem ''span''
                      [(''key'', Attr (JNum (of_nat entityIdx))),
                       (''className'', Attr (JStr ''entity-tag''))]
                      [Val name, Text '' ('', Val type, Text '')''])))"

text \<open>\<open>.map\<close> over a list, from index \<open>i\<close>, stopping at the first exception.\<close>

fun entity_tags :: "nat \<Rightarrow> jsval list \<Rightarrow> js_error + node list" where
  "entity_tags i [] = Inr []"
| "entity_tags i (x # xs) =
     (case entity_tag i x of
        Inl e \<Rightarrow> Inl e
      | Inr t \<Rightarrow> (case entity_tags (Suc i) xs of Inl e \<Rightarrow> Inl e | Inr ts \<Rightarrow> Inr (t # ts)))"

text \<open>Lines 262 to 266, for an array of \<open>n\<close> entities.\<close>

definition more_marker :: "nat \<Rightarrow> node" where
  "more_marker n =
     (if 6 < n
      then Elem ''span'' [(''className'', Attr (JStr ''entity-tag more''))]
             [Text ''+'', Val (JNum (of_nat n - 6)), Text '' more'']
      else Val (JBool False))"

text \<open>
  Lines 253 to 269. Only an array has \<open>slice\<close> and a result of it with \<open>map\<close>: on a string
  or an object whose \<open>length\<close> compares greater than 0, line 257 throws.
\<close>

definition entities_section :: "runtime \<Rightarrow> jsval \<Rightarrow> js_error + node" where
  "entities_section rt article =
     (case get_prop article ''entities'' of
        Inl e \<Rightarrow> Inl e
      | Inr entities \<Rightarrow>
          if \<not> truthy entities then Inr (Val entities)
          else
            (case get_prop entities ''length'' of
               Inl e \<Rightarrow> Inl e
             | Inr len \<Rightarrow>
                 (case js_gt rt len 0 of
                    Inl e \<Rightarrow> Inl e
                  | Inr positive \<Rightarrow>
                      if \<not> positive then Inr (Val (JBool False))
                      else
                        (case entities of
                           JArr xs \<Rightarrow>
                             (case entity_tags 0 (take 6 xs) of
                                Inl e \<Rightarrow> Inl e
                              | Inr tags \<Rightarrow>
                                  Inr (Elem ''div'' [(''className'', Attr (JStr ''entities''))]
                                        [Elem ''strong'' [] [Text ''Key Entities:''],
                                         Elem ''div'' [(''className'', Attr (JStr ''entity-tags''))]
                                           [Many tags, more_marker (length xs)]]))
                         | _ \<Rightarrow> Inl TypeError))))"

text \<open>
  React's rule for a child that is a value: \<open>undefined\<close>, \<open>null\<close>, a boolean and the
  empty string put nothing in the document; a number, 0 included, is put there as text.
\<close>

fun renders_nothing :: "jsval \<Rightarrow> bool" where
  "renders_nothing JUndefined = True"
| "renders_nothing JNull = True"
| "renders_nothing (JBool b) = True"
| "renders_nothing (JStr s) = (s = [])"
| "renders_nothing (JArr xs) = list_all renders_nothing xs"
| "renders_nothing v = False"

section \<open>The handlers between their awaits\<close>

text \<open>
  An \<open>async\<close> handler runs up to its first \<open>await\<close> when it is called and resumes when
  the awaited request ends; other events are handled in between. The pieces below are
  the source's handlers cut at their awaits.
\<close>

definition fetchArticles_start :: "string \<Rightarrow> filter_selection \<Rightarrow> prog" where
  "fetchArticles_start query currentFilters =
     seq (setLoading True) (send (search_request query currentFilters))"

definition fetchArticles_finish :: "runtime \<Rightarrow> fetch_outcome \<Rightarrow> prog" where
  "fetchArticles_finish rt outcome =
     seq (try_catch
            (receive outcome (\<lambda>data.
               seq (debug_log rt data)
                 (evaluate (get_prop data ''results'') (\<lambda>r.
                    setArticles (js_or r (JArr []))))))
            (\<lambda>error. setArticles (JArr [])))
       (setLoading False)"

definition ingest_start :: prog where
  "ingest_start = seq (setIngesting True) (seq (setIngestStatus JNull) (send ingest_request))"

text \<open>
  After the response of the ingest request: either the handler ends (\<open>False\<close>), or it has
  called \<open>fetchArticles\<close> with the query and filters it captured and awaits it (\<open>True\<close>).
\<close>

definition ingest_response ::
  "fetch_outcome \<Rightarrow> string \<Rightarrow> filter_selection \<Rightarrow> app_state \<Rightarrow> bool \<times> app_state" where
  "ingest_response outcome query currentFilters s =
     (case outcome of
        Parsed data \<Rightarrow>
          (case get_prop data ''error'' of
             Inr err \<Rightarrow>
               if \<not> truthy err
               then (True, snd (seq (setIngestStatus data)
                                  (fetchArticles_start query currentFilters) s))
               else (False, snd (seq (setIngestStatus data) (setIngesting False) s))
           | Inl e \<Rightarrow>
               (False, snd (seq (setIngestStatus data)
                              (seq (setIngestStatus ingest_failed) (setIngesting False)) s)))
      | _ \<Rightarrow> (False, snd (seq (setIngestStatus ingest_failed) (setIngesting False) s)))"

definition ingest_finish :: "runtime \<Rightarrow> fetch_outcome \<Rightarrow> prog" where
  "ingest_finish rt outcome = seq (fetchArticles_finish rt outcome) (setIngesting False)"

section \<open>The component under a sequence of events\<close>

text \<open>
  A call in flight: a search, an ingest request with the query and filters its handler
  captured, or the search an ingest handler awaits.
\<close>

datatype task =
    SearchCall
  | IngestCall string filter_selection
  | RefreshCall

record system =
  ui :: app_state
  pending :: "task list"

text \<open>
  The user types in the search box, asks for a search (button or Enter), picks an option
  of a select, presses the ingest button; or the \<open>i\<close>-th call in flight ends.
\<close>

datatype event =
    Typed string
  | SearchPressed
  | Selected filter_field string
  | IngestPressed
  | Settled nat fetch_outcome

definition drop_nth :: "nat \<Rightarrow> 'a list \<Rightarrow> 'a list" where
  "drop_nth i xs = take i xs @ drop (Suc i) xs"

definition settle :: "runtime \<Rightarrow> nat \<Rightarrow> fetch_outcome \<Rightarrow> system \<Rightarrow> system" where
  "settle rt i outcome sys =
     (case pending sys ! i of
        SearchCall \<Rightarrow>
          \<lparr>ui = snd (fetchArticles_finish rt outcome (ui sys)),
           pending = drop_nth i (pending sys)\<rparr>
      | IngestCall query currentFilters \<Rightarrow>
          (case ingest_response outcome query currentFilters (ui sys) of
             (True, s') \<Rightarrow> \<lparr>ui = s', pending = (pending sys)[i := RefreshCall]\<rparr>
           | (False, s') \<Rightarrow> \<lparr>ui = s', pending = drop_nth i (pending sys)\<rparr>)
      | RefreshCall \<Rightarrow>
          \<lparr>ui = snd (ingest_finish rt outcome (ui sys)),
           pending = drop_nth i (pending sys)\<rparr>)"

fun step :: "runtime \<Rightarrow> system \<Rightarrow> event \<Rightarrow> system" where
  "step rt sys (Typed v) =
     (if offers (ui sys) SetSearchQuery
      then sys\<lparr>ui := snd (setSearchQuery v (ui sys))\<rparr>
      else sys)"
| "step rt sys SearchPressed =
     (if offers (ui sys) HandleSearch
      then \<lparr>ui = snd (fetchArticles_start (searchQuery (ui sys)) (filters (ui sys)) (ui sys)),
            pending = pending sys @ [SearchCall]\<rparr>
      else sys)"
| "step rt sys (Selected filterType v) =
     (if offers (ui sys) (HandleFilterChange filterType)
      then (let newFilters = set_field filterType v (filters (ui sys))
            in \<lparr>ui = snd (seq (setFilters newFilters)
                             (fetchArticles_start (searchQuery (ui sys)) newFilters) (ui sys)),
                pending = pending sys @ [SearchCall]\<rparr>)
      else sys)"
| "step rt sys IngestPressed =
     (if offers (ui sys) IngestArticles
      then \<lparr>ui = snd (ingest_start (ui sys)),
            pending = pending sys @ [IngestCall (searchQuery (ui sys)) (filters (ui sys))]\<rparr>
      else sys)"
| "step rt sys (Settled i outcome) =
     (if i < length (pending sys) then settle rt i outcome sys else sys)"

text \<open>The component after its mount effect has called \<open>fetchArticles()\<close> (line 96).\<close>

definition mounted :: system where
  "mounted =
     \<lparr>ui = snd (fetchArticles_start [] (filters initial_state) initial_state),
      pending = [SearchCall]\<rparr>"

definition run :: "runtime \<Rightarrow> event list \<Rightarrow> system" where
  "run rt events = foldl (step rt) mounted events"

fun ingest_request_in_flight :: "task \<Rightarrow> bool" where
  "ingest_request_in_flight (IngestCall query currentFilters) = True"
| "ingest_request_in_flight t = False"

fun ingest_in_progress :: "task \<Rightarrow> bool" where
  "ingest_in_progress SearchCall = False"
| "ingest_in_progress t = True"

text \<open>
  Between two events, \<open>ingesting\<close> holds exactly when one ingest handler is between its
  start and its end, and then there is one such handler only.
\<close>

definition one_ingest :: "system \<Rightarrow> bool" where
  "one_ingest sys =
     (length (filter ingest_in_progress (pending sys)) = (if ingesting (ui sys) then 1 else 0))"

text \<open>The field of a filter selection read by its name.\<close>

fun get_field :: "filter_field \<Rightarrow> filter_selection \<Rightarrow> string" where
  "get_field Language f = language f"
| "get_field Sentiment f = sentiment f"
| "get_field Bias f = bias f"

section \<open>A runtime for concrete inputs\<close>

text \<open>
  Used where a statement is evaluated at an input: every comparison left to the runtime
  is false, every percentage is written \<open>50.0\<close> and every text left to it is empty.
\<close>

definition sample_runtime :: runtime where
  "sample_runtime =
     \<lparr>coerce_gt = (\<lambda>v n. Inr False), percent_text = (\<lambda>v. Inr ''50.0''),
      text_of = (\<lambda>v. Inr [])\<rparr>"

section \<open>Basic facts about the handlers\<close>

lemmas prog_defs = skip_def throw_def seq_def try_catch_def evaluate_def setArticles_def
  setLoading_def setSearchQuery_def setFilters_def setIngesting_def setIngestStatus_def
  send_def receive_def

lemma debug_log_state: "debug_log rt data s = (x, s') \<Longrightarrow> s' = s"
  by (auto simp: debug_log_def prog_defs split: sum.splits if_splits)

lemma debug_log_exn: "fst (debug_log rt data s) = fst (debug_log rt data s')"
  by (auto simp: debug_log_def prog_defs split: sum.splits if_splits)

lemma debug_log_eq: "debug_log rt data s = (fst (debug_log rt data initial_state), s)"
  using debug_log_state[of rt data s] debug_log_exn[of rt data s initial_state]
  by (cases "debug_log rt data s") simp

lemma debug_log_array:
  "get_prop data ''results'' = Inr (JArr xs) \<Longrightarrow>
   (case xs of [] \<Rightarrow> True | a # _ \<Rightarrow> \<not> nullish a) \<Longrightarrow> debug_log rt data s = (None, s)"
  by (auto simp: debug_log_def prog_defs split: list.splits)

lemma debug_log_absent:
  "get_prop data ''results'' = Inr JUndefined \<Longrightarrow> debug_log rt data s = (None, s)"
  by (auto simp: debug_log_def prog_defs)

text \<open>\<open>fetchArticles\<close> is its two pieces, one after the other.\<close>

lemma fetchArticles_cut:
  "fetchArticles rt q f outcome s =
     fetchArticles_finish rt outcome (snd (fetchArticles_start q f s))"
  by (auto simp: fetchArticles_def fetchArticles_finish_def fetchArticles_start_def prog_defs
      split: sum.splits fetch_outcome.splits option.splits prod.splits)

lemma fetchArticles_start_eq:
  "fetchArticles_start q f s =
     (None, s\<lparr>loading := True, fetch_log := fetch_log s @ [search_request q f]\<rparr>)"
  by (simp add: fetchArticles_start_def prog_defs)

lemma fetchArticles_finish_returns: "fst (fetchArticles_finish rt outcome s) = None"
  by (auto simp: fetchArticles_finish_def prog_defs
      split: sum.splits fetch_outcome.splits option.splits prod.splits)

lemma fetchArticles_finish_pair:
  "fetchArticles_finish rt outcome s = (None, snd (fetchArticles_finish rt outcome s))"
  using fetchArticles_finish_returns[of rt outcome s]
  by (cases "fetchArticles_finish rt outcome s") simp

lemma fetchArticles_finish_frame:
  "loading (snd (fetchArticles_finish rt outcome s)) = False"
  "searchQuery (snd (fetchArticles_finish rt outcome s)) = searchQuery s"
  "filters (snd (fetchArticles_finish rt outcome s)) = filters s"
  "ingesting (snd (fetchArticles_finish rt outcome s)) = ingesting s"
  "ingestStatus (snd (fetchArticles_finish rt outcome s)) = ingestStatus s"
  "fetch_log (snd (fetchArticles_finish rt outcome s)) = fetch_log s"
  by (auto simp: fetchArticles_finish_def prog_defs
      split: sum.splits fetch_outcome.splits option.splits prod.splits
      dest!: debug_log_state)

text \<open>The list a search leaves does not depend on the state it resumes on.\<close>

lemma fetchArticles_finish_articles:
  "articles (snd (fetchArticles_finish rt outcome s)) =
   articles (snd (fetchArticles_finish rt outcome s'))"
  by (cases outcome;
      cases "fst (debug_log rt (case outcome of Parsed d \<Rightarrow> d | _ \<Rightarrow> JNull) initial_state)")
     (auto simp: fetchArticles_finish_def prog_defs debug_log_eq[of _ _ s]
        debug_log_eq[of _ _ s'] split: sum.splits)

lemma fetchArticles_returns: "fst (fetchArticles rt q f outcome s) = None"
  by (simp add: fetchArticles_cut fetchArticles_finish_returns)

lemma fetchArticles_pair:
  "fetchArticles rt q f outcome s = (None, snd (fetchArticles rt q f outcome s))"
  using fetchArticles_returns[of rt q f outcome s]
  by (cases "fetchArticles rt q f outcome s") simp

lemma fetchArticles_frame:
  "loading (snd (fetchArticles rt q f outcome s)) = False"
  "searchQuery (snd (fetchArticles rt q f outcome s)) = searchQuery s"
  "filters (snd (fetchArticles rt q f outcome s)) = filters s"
  "ingesting (snd (fetchArticles rt q f outcome s)) = ingesting s"
  "ingestStatus (snd (fetchArticles rt q f outcome s)) = ingestStatus s"
  "fetch_log (snd (fetchArticles rt q f outcome s)) = fetch_log s @ [search_request q f]"
  by (simp_all add: fetchArticles_cut fetchArticles_finish_frame fetchArticles_start_eq)

lemma fetchArticles_articles:
  "articles (snd (fetchArticles rt q f outcome s)) =
   articles (snd (fetchArticles rt q' f' outcome s'))"
  using fetchArticles_finish_articles
      [of rt outcome "snd (fetchArticles_start q f s)" "snd (fetchArticles_start q' f' s')"]
  by (simp add: fetchArticles_cut)

text \<open>\<open>ingestArticles\<close> is its pieces: the start, the response and, if awaited, the search.\<close>

lemma ingestArticles_cut:
  "ingestArticles rt outcome so s =
     (case ingest_response outcome (searchQuery s) (filters s) (snd (ingest_start s)) of
        (True, s') \<Rightarrow> ingest_finish rt so s'
      | (False, s') \<Rightarrow> (None, s'))"
proof (cases outcome)
  case Rejected
  then show ?thesis
    by (simp add: ingestArticles_def ingest_response_def ingest_start_def prog_defs)
next
  case BadJson
  then show ?thesis
    by (simp add: ingestArticles_def ingest_response_def ingest_start_def prog_defs)
next
  case (Parsed data)
  show ?thesis
  proof (cases "get_prop data ''error''")
    case (Inl e)
    with Parsed show ?thesis
      by (simp add: ingestArticles_def ingest_response_def ingest_start_def prog_defs)
  next
    case (Inr err)
    show ?thesis
    proof (cases "truthy err")
      case True
      with Parsed Inr show ?thesis
        by (simp add: ingestArticles_def ingest_response_def ingest_start_def prog_defs)
    next
      case False
      have a: "\<And>s. fetchArticles rt (searchQuery s0) (filters s0) so s =
          (None, snd (fetchArticles_finish rt so
                        (snd (fetchArticles_start (searchQuery s0) (filters s0) s))))" for s0
        using fetchArticles_pair by (simp add: fetchArticles_cut)
      have c: "\<And>s e s'. fetchArticles_finish rt so s \<noteq> (Some e, s')"
        using fetchArticles_finish_returns by (metis fst_conv option.distinct(1))
      from False Parsed Inr show ?thesis
        apply (simp add: ingestArticles_def ingest_response_def ingest_start_def
            ingest_finish_def)
        apply (simp add: prog_defs a)
        apply (auto simp: prog_defs c split: prod.splits option.splits)
        done
    qed
  qed
qed

section \<open>The search request and its response\<close>

text \<open>
  C1. The request \<open>fetchArticles\<close> sends carries exactly the non-empty fields, in the order
  \<open>q\<close>, \<open>language\<close>, \<open>sentiment\<close>, \<open>bias\<close>: \<open>q\<close> is present if and only if the query is
  non-empty and then carries the query as it is, each of \<open>language\<close>, \<open>sentiment\<close> and
  \<open>bias\<close> is present if and only if its filter value is non-empty and then carries that
  value, and \<open>size=20\<close> is always there. No name occurs twice.
\<close>

theorem fetchArticles_request_params:
  "fetch_log (snd (fetchArticles rt query fs outcome s)) =
     fetch_log s @ [GET ''http://localhost:8000/articles/search'' (build_params query fs)]
   \<and> build_params query fs =
       filter (\<lambda>(k, v). v \<noteq> [])
         [(''q'', query), (''language'', language fs), (''sentiment'', sentiment fs),
          (''bias'', bias fs)]
       @ [(''size'', ''20'')]
   \<and> map_of (build_params query fs) ''q'' = (if query = [] then None else Some query)
   \<and> map_of (build_params query fs) ''language'' =
       (if language fs = [] then None else Some (language fs))
   \<and> map_of (build_params query fs) ''sentiment'' =
       (if sentiment fs = [] then None else Some (sentiment fs))
   \<and> map_of (build_params query fs) ''bias'' =
       (if bias fs = [] then None else Some (bias fs))
   \<and> map_of (build_params query fs) ''size'' = Some ''20''
   \<and> distinct (map fst (build_params query fs))"
  using fetchArticles_frame(6)[of rt query fs outcome s]
  by (simp add: search_request_def build_params_def)

theorem fetchArticles_request_params_witness:
  "fetch_log (snd (fetchArticles sample_runtime ''rain''
       \<lparr>language = ''hi'', sentiment = [], bias = ''neutral''\<rparr> Rejected initial_state))
     = [GET ''http://localhost:8000/articles/search''
          [(''q'', ''rain''), (''language'', ''hi''), (''bias'', ''neutral''),
           (''size'', ''20'')]]
   \<and> build_params [] \<lparr>language = [], sentiment = [], bias = []\<rparr> = [(''size'', ''20'')]"
  using fetchArticles_request_params
      [of sample_runtime "''rain''" "\<lparr>language = ''hi'', sentiment = [], bias = ''neutral''\<rparr>"
          Rejected initial_state]
    fetchArticles_request_params
      [of sample_runtime "[]" "\<lparr>language = [], sentiment = [], bias = []\<rparr>"
          Rejected initial_state]
  by (simp add: initial_state_def)

text \<open>
  When the decoded body of a search response has a \<open>results\<close> array whose first
  element, if there is one, is neither \<open>null\<close> nor \<open>undefined\<close>, the list of articles
  becomes that array, in the same order; when the body has no \<open>results\<close>, the list becomes
  empty.
\<close>

lemma fetchArticles_results_when_first_not_null:
  "(get_prop data ''results'' = Inr (JArr xs)
      \<and> (case xs of [] \<Rightarrow> True | a # _ \<Rightarrow> \<not> nullish a)
      \<longrightarrow> articles (snd (fetchArticles rt q f (Parsed data) s)) = JArr xs)
   \<and> (get_prop data ''results'' = Inr JUndefined
      \<longrightarrow> articles (snd (fetchArticles rt q f (Parsed data) s)) = JArr [])"
  by (auto simp: fetchArticles_def prog_defs debug_log_array debug_log_absent js_or_def)

text \<open>
  C2. The response \<open>{results: [null, {title: "B"}]}\<close> has a \<open>results\<close> array of two
  elements, and the search ends with the empty list, not with that array: line 37 passes
  \<open>data.results[0]\<close> to \<open>Object.keys\<close>, which throws on \<open>null\<close> inside the \<open>try\<close>, and
  line 50 stores \<open>[]\<close>. Line 47, which stores the array, is not reached.
\<close>

theorem fetchArticles_null_first_article:
  "get_prop (JObj [(''results'', JArr [JNull, JObj [(''title'', JStr ''B'')]])]) ''results''
     = Inr (JArr [JNull, JObj [(''title'', JStr ''B'')]])
   \<and> fetchArticles rt q f
       (Parsed (JObj [(''results'', JArr [JNull, JObj [(''title'', JStr ''B'')]])])) s
     = (None, s\<lparr>articles := JArr [], loading := False,
                fetch_log := fetch_log s @ [search_request q f]\<rparr>)
   \<and> fetchArticles rt q f
       (Parsed (JObj [(''results'', JArr [JObj [(''title'', JStr ''B'')], JNull])])) s
     = (None, s\<lparr>articles := JArr [JObj [(''title'', JStr ''B'')], JNull], loading := False,
                fetch_log := fetch_log s @ [search_request q f]\<rparr>)"
  by (simp add: fetchArticles_def prog_defs debug_log_def js_or_def)

text \<open>
  C3. When the \<open>fetch\<close> of a search rejects, or the decoding of its body does, the search
  ends with an empty list of articles and \<open>loading\<close> false, nothing else changed; and
  whatever the outcome, \<open>fetchArticles\<close> throws nothing and leaves \<open>loading\<close> false.
\<close>

theorem fetchArticles_failure_clears_results:
  "fetchArticles rt q f Rejected s =
     (None, s\<lparr>articles := JArr [], loading := False,
              fetch_log := fetch_log s @ [search_request q f]\<rparr>)
   \<and> fetchArticles rt q f BadJson s =
     (None, s\<lparr>articles := JArr [], loading := False,
              fetch_log := fetch_log s @ [search_request q f]\<rparr>)
   \<and> fst (fetchArticles rt q f outcome s) = None
   \<and> loading (snd (fetchArticles rt q f outcome s)) = False"
  using fetchArticles_returns[of rt q f outcome s] fetchArticles_frame(1)[of rt q f outcome s]
  by (simp add: fetchArticles_def prog_defs)

section \<open>Ingestion\<close>

lemma ingest_start_eq:
  "ingest_start s =
     (None, s\<lparr>ingesting := True, ingestStatus := JNull,
              fetch_log := fetch_log s @ [ingest_request]\<rparr>)"
  by (simp add: ingest_start_def prog_defs)

lemma ingest_finish_eq:
  "ingest_finish rt so s = (None, (snd (fetchArticles_finish rt so s))\<lparr>ingesting := False\<rparr>)"
  using fetchArticles_finish_returns[of rt so s]
  by (cases "fetchArticles_finish rt so s") (simp add: ingest_finish_def seq_def setIngesting_def)

lemmas ingest_simps = ingestArticles_cut ingest_response_def ingest_start_eq ingest_finish_eq
  prog_defs fetchArticles_start_eq fetchArticles_finish_frame

text \<open>
  C4, as the code has it. When the ingest request ends with a decoded status object,
  \<open>ingestStatus\<close> becomes that object, and one search with the query and filters of the
  state the handler was invoked on follows if and only if the \<open>error\<close> property of the
  object is absent or falsy (\<open>null\<close>, \<open>false\<close>, 0, the empty string); when \<open>error\<close> is
  truthy no other request is sent.
\<close>

theorem ingestArticles_status_and_refresh:
  "ingestStatus (snd (ingestArticles rt (Parsed (JObj body)) so s)) = JObj body
   \<and> fetch_log (snd (ingestArticles rt (Parsed (JObj body)) so s)) =
       fetch_log s @ [ingest_request] @
         (if truthy (case map_of body ''error'' of None \<Rightarrow> JUndefined | Some v \<Rightarrow> v)
          then []
          else [search_request (searchQuery s) (filters s)])"
  by (simp add: ingest_simps split: option.splits)

theorem ingestArticles_status_and_refresh_witness:
  "ingestStatus (snd (ingestArticles sample_runtime (Parsed (JObj [(''indexed'', JNum 5)]))
       Rejected (initial_state\<lparr>searchQuery := ''rain''\<rparr>)))
     = JObj [(''indexed'', JNum 5)]
   \<and> fetch_log (snd (ingestArticles sample_runtime (Parsed (JObj [(''indexed'', JNum 5)]))
       Rejected (initial_state\<lparr>searchQuery := ''rain''\<rparr>)))
     = [ingest_request, search_request ''rain'' \<lparr>language = [], sentiment = [], bias = []\<rparr>]
   \<and> fetch_log (snd (ingestArticles sample_runtime (Parsed (JObj [(''error'', JStr ''x'')]))
       Rejected (initial_state\<lparr>searchQuery := ''rain''\<rparr>)))
     = [ingest_request]"
  using ingestArticles_status_and_refresh
      [of sample_runtime "[(''indexed'', JNum 5)]" Rejected
          "initial_state\<lparr>searchQuery := ''rain''\<rparr>"]
    ingestArticles_status_and_refresh
      [of sample_runtime "[(''error'', JStr ''x'')]" Rejected
          "initial_state\<lparr>searchQuery := ''rain''\<rparr>"]
  by (simp add: initial_state_def)

text \<open>
  The status object \<open>{error: ""}\<close> carries an \<open>error\<close> field, and the search is sent all the
  same: line 68 tests the truthiness of \<open>data.error\<close>, not its presence.
\<close>

theorem ingestArticles_empty_error_refreshes:
  "map_of [(''error'', JStr [])] ''error'' = Some (JStr [])
   \<and> fetch_log (snd (ingestArticles sample_runtime (Parsed (JObj [(''error'', JStr [])]))
        Rejected initial_state))
     = [ingest_request, search_request [] (filters initial_state)]"
  by (simp add: ingest_simps initial_state_def)

text \<open>
  C5. When the \<open>fetch\<close> of the ingest request rejects, or the decoding of its body does,
  \<open>ingestStatus\<close> becomes \<open>{error: "Failed to ingest articles"}\<close>; and whatever the
  outcome of the request and of the search that may follow, \<open>ingestArticles\<close> throws
  nothing and leaves \<open>ingesting\<close> false.
\<close>

theorem ingestArticles_failure_status:
  "ingestStatus (snd (ingestArticles rt Rejected so s)) =
     JObj [(''error'', JStr ''Failed to ingest articles'')]
   \<and> ingestStatus (snd (ingestArticles rt BadJson so s)) =
     JObj [(''error'', JStr ''Failed to ingest articles'')]
   \<and> ingesting (snd (ingestArticles rt outcome so s)) = False
   \<and> fst (ingestArticles rt outcome so s) = None"
  by (simp add: ingest_simps ingest_failed_def split: fetch_outcome.splits sum.splits)

text \<open>
  C7. \<open>ingestArticles\<close> itself never writes the list of articles: after it, the list is
  the one it started with, unless line 70 was reached (the status decoded and its \<open>error\<close>
  falsy), and then it is the list the awaited \<open>fetchArticles\<close> call leaves.
\<close>

theorem ingestArticles_results_frame:
  "articles (snd (ingestArticles rt outcome so s)) =
     (case outcome of
        Parsed data \<Rightarrow>
          (case get_prop data ''error'' of
             Inr err \<Rightarrow>
               if truthy err then articles s
               else articles (snd (fetchArticles rt (searchQuery s) (filters s) so s))
           | Inl e \<Rightarrow> articles s)
      | _ \<Rightarrow> articles s)"
  using fetchArticles_finish_articles
  by (simp add: ingest_simps fetchArticles_cut split: fetch_outcome.splits sum.splits)

section \<open>Filters\<close>

text \<open>
  C6. \<open>handleFilterChange\<close> sets the named field of the filters to the value and leaves
  the two other fields as they were; it sends exactly one request, the search with the
  updated filters and the query of the state, and the query stays as it was.
\<close>

theorem handleFilterChange_updates_and_searches:
  "get_field g (filters (snd (handleFilterChange rt field v outcome s))) =
     (if g = field then v else get_field g (filters s))
   \<and> fetch_log (snd (handleFilterChange rt field v outcome s)) =
       fetch_log s @
         [search_request (searchQuery s)
            (filters (snd (handleFilterChange rt field v outcome s)))]
   \<and> searchQuery (snd (handleFilterChange rt field v outcome s)) = searchQuery s"
  by (cases g; cases field)
     (simp_all add: handleFilterChange_def prog_defs fetchArticles_frame Let_def)

theorem handleFilterChange_updates_and_searches_witness:
  "filters (snd (handleFilterChange sample_runtime Sentiment ''negative'' Rejected initial_state))
     = \<lparr>language = [], sentiment = ''negative'', bias = []\<rparr>
   \<and> fetch_log (snd (handleFilterChange sample_runtime Sentiment ''negative'' Rejected
        initial_state))
     = [GET ''http://localhost:8000/articles/search''
          [(''sentiment'', ''negative''), (''size'', ''20'')]]"
proof -
  let ?f = "filters (snd (handleFilterChange sample_runtime Sentiment ''negative'' Rejected
      initial_state))"
  note h = handleFilterChange_updates_and_searches
    [of _ sample_runtime Sentiment "''negative''" Rejected initial_state]
  from h[of Language] h[of Sentiment] h[of Bias]
  have "language ?f = []" and "sentiment ?f = ''negative''" and "bias ?f = []"
    by (simp_all add: initial_state_def)
  then have f: "?f = \<lparr>language = [], sentiment = ''negative'', bias = []\<rparr>"
    by (cases ?f) simp
  from h[of Language] f show ?thesis
    by (simp add: initial_state_def search_request_def build_params_def)
qed

section \<open>One ingest at a time\<close>

lemma offers_ingest: "offers s IngestArticles = (\<not> loading s \<and> \<not> ingesting s)"
  by (simp add: offers_def controls_def ingest_button_def search_input_def search_button_def
      language_select_def sentiment_select_def bias_select_def select_node_def)

lemma count_drop_nth:
  assumes "i < length ts"
  shows "length (filter P ts) = length (filter P (drop_nth i ts)) + (if P (ts ! i) then 1 else 0)"
proof -
  have "ts = take i ts @ ts ! i # drop (Suc i) ts"
    using assms by (rule id_take_nth_drop)
  then have "length (filter P ts) = length (filter P (take i ts @ ts ! i # drop (Suc i) ts))"
    by simp
  then show ?thesis
    by (simp add: drop_nth_def)
qed

lemma count_update:
  "i < length ts \<Longrightarrow> P (ts ! i) \<Longrightarrow> P t \<Longrightarrow>
   length (filter P (ts[i := t])) = length (filter P ts)"
proof (induction ts arbitrary: i)
  case Nil
  then show ?case by simp
next
  case (Cons a ts)
  then show ?case by (cases i) auto
qed

lemma count_pos: "i < length ts \<Longrightarrow> P (ts ! i) \<Longrightarrow> 0 < length (filter P ts)"
  by (auto simp: filter_empty_conv)

lemma count_mono:
  "(\<And>x. P x \<Longrightarrow> Q x) \<Longrightarrow> length (filter P xs) \<le> length (filter Q xs)"
  by (induction xs) auto

lemma one_ingest_step: "one_ingest sys \<Longrightarrow> one_ingest (step rt sys ev)"
proof (cases ev)
  case (Typed v)
  then show "one_ingest sys \<Longrightarrow> ?thesis"
    by (auto simp: one_ingest_def prog_defs)
next
  case SearchPressed
  then show "one_ingest sys \<Longrightarrow> ?thesis"
    by (auto simp: one_ingest_def fetchArticles_start_eq)
next
  case (Selected f v)
  then show "one_ingest sys \<Longrightarrow> ?thesis"
    by (auto simp: one_ingest_def fetchArticles_start_eq prog_defs Let_def)
next
  case IngestPressed
  then show "one_ingest sys \<Longrightarrow> ?thesis"
    by (auto simp: one_ingest_def ingest_start_eq offers_ingest)
next
  case (Settled i outcome)
  assume I: "one_ingest sys"
  show ?thesis
  proof (cases "i < length (pending sys)")
    case False
    with I Settled show ?thesis by simp
  next
    case True
    note cnt = count_drop_nth[of i "pending sys" ingest_in_progress, OF True]
    show ?thesis
    proof (cases "pending sys ! i")
      case SearchCall
      with I True Settled cnt show ?thesis
        by (simp add: one_ingest_def settle_def fetchArticles_finish_frame)
    next
      case (IngestCall q f)
      with True have "0 < length (filter ingest_in_progress (pending sys))"
        using count_pos[of i "pending sys" ingest_in_progress] by simp
      with I have ing: "ingesting (ui sys)"
        "length (filter ingest_in_progress (pending sys)) = 1"
        by (auto simp: one_ingest_def split: if_splits)
      from IngestCall True Settled ing cnt show ?thesis
        by (auto simp: one_ingest_def settle_def count_update ingest_response_def prog_defs
            fetchArticles_start_eq split: fetch_outcome.splits sum.splits prod.splits)
    next
      case RefreshCall
      with True have "0 < length (filter ingest_in_progress (pending sys))"
        using count_pos[of i "pending sys" ingest_in_progress] by simp
      with I have ing: "ingesting (ui sys)"
        "length (filter ingest_in_progress (pending sys)) = 1"
        by (auto simp: one_ingest_def split: if_splits)
      from RefreshCall True Settled ing cnt show ?thesis
        by (simp add: one_ingest_def settle_def ingest_finish_eq)
    qed
  qed
qed

lemma one_ingest_foldl: "one_ingest sys \<Longrightarrow> one_ingest (foldl (step rt) sys events)"
  by (induction events arbitrary: sys) (simp_all add: one_ingest_step)

lemma one_ingest_mounted: "one_ingest mounted"
  by (simp add: one_ingest_def mounted_def fetchArticles_start_eq initial_state_def)

lemma one_ingest_run: "one_ingest (run rt events)"
  unfolding run_def by (rule one_ingest_foldl) (rule one_ingest_mounted)

text \<open>
  C8. The tree offers the ingest handler exactly when the component is neither loading
  nor ingesting: the button carries \<open>disabled = ingesting\<close>, and pressing it while
  \<open>ingesting\<close> holds changes nothing. So after any sequence of events, an ingest handler
  is under way exactly when \<open>ingesting\<close> holds, there is at most one, and at most one
  ingest request is in flight.
\<close>

theorem ingest_button_one_at_a_time:
  "map_of (case ingest_button s of Elem tag attrs children \<Rightarrow> attrs | _ \<Rightarrow> []) ''disabled'' =
     Some (Attr (JBool (ingesting s)))
   \<and> offers s IngestArticles = (\<not> loading s \<and> \<not> ingesting s)
   \<and> step rt \<lparr>ui = s\<lparr>ingesting := True\<rparr>, pending = ts\<rparr> IngestPressed =
       \<lparr>ui = s\<lparr>ingesting := True\<rparr>, pending = ts\<rparr>
   \<and> length (filter ingest_in_progress (pending (run rt events))) =
       (if ingesting (ui (run rt events)) then 1 else 0)
   \<and> length (filter ingest_request_in_flight (pending (run rt events))) \<le> 1"
proof -
  have a: "length (filter ingest_in_progress (pending (run rt events))) =
      (if ingesting (ui (run rt events)) then 1 else 0)"
    using one_ingest_run[of rt events] by (simp add: one_ingest_def)
  have "length (filter ingest_request_in_flight (pending (run rt events))) \<le>
      length (filter ingest_in_progress (pending (run rt events)))"
    by (rule count_mono) (auto elim: ingest_request_in_flight.elims)
  with a show ?thesis
    by (simp add: offers_ingest ingest_button_def split: if_splits)
qed

text \<open>
  A run: the search of the mount ends, then the ingest button is pressed twice. The
  second press finds the button disabled; one request was sent.
\<close>

theorem ingest_button_one_at_a_time_witness:
  "pending (run sample_runtime
       [Settled 0 (Parsed (JObj [(''results'', JArr [])])), IngestPressed, IngestPressed])
     = [IngestCall [] \<lparr>language = [], sentiment = [], bias = []\<rparr>]
   \<and> fetch_log (ui (run sample_runtime
       [Settled 0 (Parsed (JObj [(''results'', JArr [])])), IngestPressed, IngestPressed]))
     = [search_request [] \<lparr>language = [], sentiment = [], bias = []\<rparr>, ingest_request]
   \<and> ingesting (ui (run sample_runtime
       [Settled 0 (Parsed (JObj [(''results'', JArr [])])), IngestPressed, IngestPressed]))
   \<and> length (filter ingest_request_in_flight (pending (run sample_runtime
       [Settled 0 (Parsed (JObj [(''results'', JArr [])])), IngestPressed, IngestPressed])))
     \<le> 1"
proof -
  let ?events =
    "[Settled 0 (Parsed (JObj [(''results'', JArr [])])), IngestPressed, IngestPressed]"
  have first: "step sample_runtime mounted (Settled 0 (Parsed (JObj [(''results'', JArr [])])))
      = \<lparr>ui = initial_state\<lparr>fetch_log :=
               [search_request [] \<lparr>language = [], sentiment = [], bias = []\<rparr>]\<rparr>,
           pending = []\<rparr>"
    by (simp add: mounted_def settle_def drop_nth_def fetchArticles_start_eq
        fetchArticles_finish_def prog_defs debug_log_def js_or_def initial_state_def)
  let ?s1 = "\<lparr>ui = initial_state\<lparr>fetch_log :=
               [search_request [] \<lparr>language = [], sentiment = [], bias = []\<rparr>]\<rparr>,
           pending = []\<rparr>"
  let ?s2 = "\<lparr>ui = initial_state\<lparr>ingesting := True, fetch_log :=
               [search_request [] \<lparr>language = [], sentiment = [], bias = []\<rparr>,
                ingest_request]\<rparr>,
       pending = [IngestCall [] \<lparr>language = [], sentiment = [], bias = []\<rparr>]\<rparr>"
  have second: "step sample_runtime ?s1 IngestPressed = ?s2"
    by (simp add: offers_ingest ingest_start_eq initial_state_def)
  have third: "step sample_runtime ?s2 IngestPressed = ?s2"
    by (simp add: offers_ingest)
  have run: "run sample_runtime ?events = ?s2"
    unfolding run_def foldl_Cons foldl_Nil first second third ..
  from ingest_button_one_at_a_time[of initial_state sample_runtime "[]" ?events]
  have "length (filter ingest_request_in_flight (pending (run sample_runtime ?events))) \<le> 1"
    by blast
  with run show ?thesis
    by (simp add: initial_state_def)
qed

section \<open>The article card\<close>

lemma entity_tags_length: "entity_tags i xs = Inr tags \<Longrightarrow> length tags = length xs"
  by (induction xs arbitrary: i tags) (auto split: sum.splits)

lemma entity_tags_nth:
  "entity_tags i xs = Inr tags \<Longrightarrow> k < length xs \<Longrightarrow>
   entity_tag (i + k) (xs ! k) = Inr (tags ! k)"
proof (induction xs arbitrary: i tags k)
  case Nil
  then show ?case by simp
next
  case (Cons x xs)
  from Cons.prems(1) obtain t ts where
    t: "entity_tag i x = Inr t" and ts: "entity_tags (Suc i) xs = Inr ts" and
    tags: "tags = t # ts"
    by (auto split: sum.splits)
  show ?case
  proof (cases k)
    case 0
    with t tags show ?thesis by simp
  next
    case (Suc n)
    with Cons.prems(2) have "n < length xs" by simp
    from Cons.IH[OF ts this] Suc tags show ?thesis by simp
  qed
qed

lemma entity_tag_total: "\<not> nullish e \<Longrightarrow> \<exists>t. entity_tag i e = Inr t"
  by (cases e) (auto simp: entity_tag_def split: option.splits)

text \<open>What a tag shows: the \<open>name\<close> and the \<open>type\<close> of its entity, under its index.\<close>

lemma entity_tag_shape:
  "entity_tag i e = Inr t \<Longrightarrow>
   \<exists>name type.
     get_prop e ''name'' = Inr name \<and> get_prop e ''type'' = Inr type \<and>
     t = Elem ''span''
           [(''key'', Attr (JNum (of_nat i))), (''className'', Attr (JStr ''entity-tag''))]
           [Val name, Text '' ('', Val type, Text '')'']"
  by (auto simp: entity_tag_def split: sum.splits)

lemma entity_tags_total:
  "list_all (\<lambda>e. \<not> nullish e) xs \<Longrightarrow> \<exists>tags. entity_tags i xs = Inr tags"
proof (induction xs arbitrary: i)
  case Nil
  then show ?case by simp
next
  case (Cons x xs)
  from Cons.prems obtain t where "entity_tag i x = Inr t"
    using entity_tag_total[of x i] by auto
  moreover from Cons obtain ts where "entity_tags (Suc i) xs = Inr ts"
    by fastforce
  ultimately show ?case by simp
qed

text \<open>
  C9. For an article whose \<open>entities\<close> is a non-empty array of \<open>n\<close> entities (none of the
  first six \<open>null\<close>), the section holds \<open>min 6 n\<close> tags, the \<open>k\<close>-th tag showing the
  \<open>name\<close> and the \<open>type\<close> of the \<open>k\<close>-th entity of the array under the key \<open>k\<close>,
  followed by the marker \<open>+(n - 6) more\<close> when \<open>n > 6\<close> and by \<open>false\<close> otherwise. When
  \<open>entities\<close> is absent or the empty array, the expression is a value that puts nothing
  in the document.
\<close>

theorem entities_section_first_six:
  "(get_prop article ''entities'' = Inr (JArr xs) \<and> xs \<noteq> []
      \<and> list_all (\<lambda>e. \<not> nullish e) (take 6 xs)
     \<longrightarrow> (\<exists>tags.
          entities_section rt article =
            Inr (Elem ''div'' [(''className'', Attr (JStr ''entities''))]
                  [Elem ''strong'' [] [Text ''Key Entities:''],
                   Elem ''div'' [(''className'', Attr (JStr ''entity-tags''))]
                     [Many tags,
                      if 6 < length xs
                      then Elem ''span'' [(''className'', Attr (JStr ''entity-tag more''))]
                             [Text ''+'', Val (JNum (of_nat (length xs - 6))), Text '' more'']
                      else Val (JBool False)]])
          \<and> length tags = min 6 (length xs)
          \<and> (\<forall>k < length tags. \<exists>name type.
                get_prop (xs ! k) ''name'' = Inr name
              \<and> get_prop (xs ! k) ''type'' = Inr type
              \<and> tags ! k =
                  Elem ''span''
                    [(''key'', Attr (JNum (of_nat k))),
                     (''className'', Attr (JStr ''entity-tag''))]
                    [Val name, Text '' ('', Val type, Text '')''])))
   \<and> (get_prop article ''entities'' = Inr JUndefined
        \<or> get_prop article ''entities'' = Inr (JArr [])
     \<longrightarrow> (\<exists>v. entities_section rt article = Inr (Val v) \<and> renders_nothing v))"
proof (intro conjI impI)
  assume a: "get_prop article ''entities'' = Inr (JArr xs) \<and> xs \<noteq> []
      \<and> list_all (\<lambda>e. \<not> nullish e) (take 6 xs)"
  then obtain tags where t: "entity_tags 0 (take 6 xs) = Inr tags"
    using entity_tags_total[of "take 6 xs" 0] by auto
  have len: "length tags = min 6 (length xs)"
    using entity_tags_length[OF t] by (simp add: min.commute)
  have nth: "(\<forall>k < length tags. \<exists>name type.
                get_prop (xs ! k) ''name'' = Inr name
              \<and> get_prop (xs ! k) ''type'' = Inr type
              \<and> tags ! k =
                  Elem ''span''
                    [(''key'', Attr (JNum (of_nat k))),
                     (''className'', Attr (JStr ''entity-tag''))]
                    [Val name, Text '' ('', Val type, Text '')''])"
  proof (intro allI impI)
    fix k
    assume k: "k < length tags"
    with len have "k < length (take 6 xs)"
      by simp
    from entity_tags_nth[OF t this] k len
    have "entity_tag k (xs ! k) = Inr (tags ! k)"
      by simp
    then show "\<exists>name type.
                get_prop (xs ! k) ''name'' = Inr name
              \<and> get_prop (xs ! k) ''type'' = Inr type
              \<and> tags ! k =
                  Elem ''span''
                    [(''key'', Attr (JNum (of_nat k))),
                     (''className'', Attr (JStr ''entity-tag''))]
                    [Val name, Text '' ('', Val type, Text '')'']"
      by (rule entity_tag_shape)
  qed
  have sec: "entities_section rt article =
            Inr (Elem ''div'' [(''className'', Attr (JStr ''entities''))]
                  [Elem ''strong'' [] [Text ''Key Entities:''],
                   Elem ''div'' [(''className'', Attr (JStr ''entity-tags''))]
                     [Many tags,
                      if 6 < length xs
                      then Elem ''span'' [(''className'', Attr (JStr ''entity-tag more''))]
                             [Text ''+'', Val (JNum (of_nat (length xs - 6))), Text '' more'']
                      else Val (JBool False)]])"
    using a t by (simp add: entities_section_def more_marker_def of_nat_diff)
  from sec len nth show "\<exists>tags.
          entities_section rt article =
            Inr (Elem ''div'' [(''className'', Attr (JStr ''entities''))]
                  [Elem ''strong'' [] [Text ''Key Entities:''],
                   Elem ''div'' [(''className'', Attr (JStr ''entity-tags''))]
                     [Many tags,
                      if 6 < length xs
                      then Elem ''span'' [(''className'', Attr (JStr ''entity-tag more''))]
                             [Text ''+'', Val (JNum (of_nat (length xs - 6))), Text '' more'']
                      else Val (JBool False)]])
          \<and> length tags = min 6 (length xs)
          \<and> (\<forall>k < length tags. \<exists>name type.
                get_prop (xs ! k) ''name'' = Inr name
              \<and> get_prop (xs ! k) ''type'' = Inr type
              \<and> tags ! k =
                  Elem ''span''
                    [(''key'', Attr (JNum (of_nat k))),
                     (''className'', Attr (JStr ''entity-tag''))]
                    [Val name, Text '' ('', Val type, Text '')''])"
    by blast
next
  assume "get_prop article ''entities'' = Inr JUndefined
        \<or> get_prop article ''entities'' = Inr (JArr [])"
  then show "\<exists>v. entities_section rt article = Inr (Val v) \<and> renders_nothing v"
    by (auto simp: entities_section_def)
qed

text \<open>
  Eight entities \<open>a\<close> to \<open>h\<close>: the section shows \<open>a\<close> to \<open>f\<close>, in this order, and \<open>+2 more\<close>.
  An article without \<open>entities\<close> has no section.
\<close>

theorem entities_section_first_six_witness:
  "entities_section sample_runtime
     (JObj [(''entities'',
        JArr [JObj [(''name'', JStr ''a''), (''type'', JStr ''ORG'')],
       JObj [(''name'', JStr ''b''), (''type'', JStr ''ORG'')],
       JObj [(''name'', JStr ''c''), (''type'', JStr ''ORG'')],
       JObj [(''name'', JStr ''d''), (''type'', JStr ''LOC'')],
       JObj [(''name'', JStr ''e''), (''type'', JStr ''LOC'')],
       JObj [(''name'', JStr ''f''), (''type'', JStr ''LOC'')],
       JObj [(''name'', JStr ''g''), (''type'', JStr ''PER'')],
       JObj [(''name'', JStr ''h''), (''type'', JStr ''PER'')]])])
     = Inr (Elem ''div'' [(''className'', Attr (JStr ''entities''))]
          [Elem ''strong'' [] [Text ''Key Entities:''],
           Elem ''div'' [(''className'', Attr (JStr ''entity-tags''))]
             [Many
                [Elem ''span'' [(''key'', Attr (JNum 0)), (''className'', Attr (JStr ''entity-tag''))]
            [Val (JStr ''a''), Text '' ('', Val (JStr ''ORG''), Text '')''],
          Elem ''span'' [(''key'', Attr (JNum 1)), (''className'', Attr (JStr ''entity-tag''))]
            [Val (JStr ''b''), Text '' ('', Val (JStr ''ORG''), Text '')''],
          Elem ''span'' [(''key'', Attr (JNum 2)), (''className'', Attr (JStr ''entity-tag''))]
            [Val (JStr ''c''), Text '' ('', Val (JStr ''ORG''), Text '')''],
          Elem ''span'' [(''key'', Attr (JNum 3)), (''className'', Attr (JStr ''entity-tag''))]
            [Val (JStr ''d''), Text '' ('', Val (JStr ''LOC''), Text '')''],
          Elem ''span'' [(''key'', Attr (JNum 4)), (''className'', Attr (JStr ''entity-tag''))]
            [Val (JStr ''e''), Text '' ('', Val (JStr ''LOC''), Text '')''],
          Elem ''span'' [(''key'', Attr (JNum 5)), (''className'', Attr (JStr ''entity-tag''))]
            [Val (JStr ''f''), Text '' ('', Val (JStr ''LOC''), Text '')'']],
              Elem ''span'' [(''className'', Attr (JStr ''entity-tag more''))]
                [Text ''+'', Val (JNum 2), Text '' more'']]])
   \<and> (\<exists>v. entities_section sample_runtime (JObj [(''title'', JStr ''A'')]) = Inr (Val v)
          \<and> renders_nothing v)"
proof -
  let ?xs = "[JObj [(''name'', JStr ''a''), (''type'', JStr ''ORG'')],
       JObj [(''name'', JStr ''b''), (''type'', JStr ''ORG'')],
       JObj [(''name'', JStr ''c''), (''type'', JStr ''ORG'')],
       JObj [(''name'', JStr ''d''), (''type'', JStr ''LOC'')],
       JObj [(''name'', JStr ''e''), (''type'', JStr ''LOC'')],
       JObj [(''name'', JStr ''f''), (''type'', JStr ''LOC'')],
       JObj [(''name'', JStr ''g''), (''type'', JStr ''PER'')],
       JObj [(''name'', JStr ''h''), (''type'', JStr ''PER'')]]"
  let ?article = "JObj [(''entities'', JArr ?xs)]"
  have h: "get_prop ?article ''entities'' = Inr (JArr ?xs) \<and> ?xs \<noteq> []
      \<and> list_all (\<lambda>e. \<not> nullish e) (take 6 ?xs)"
    by simp
  from entities_section_first_six[of ?article ?xs sample_runtime, THEN conjunct1, rule_format, OF h]
  obtain tags where
    sec: "entities_section sample_runtime ?article =
            Inr (Elem ''div'' [(''className'', Attr (JStr ''entities''))]
                  [Elem ''strong'' [] [Text ''Key Entities:''],
                   Elem ''div'' [(''className'', Attr (JStr ''entity-tags''))]
                     [Many tags,
                      if 6 < length ?xs
                      then Elem ''span'' [(''className'', Attr (JStr ''entity-tag more''))]
                             [Text ''+'', Val (JNum (of_nat (length ?xs - 6))), Text '' more'']
                      else Val (JBool False)]])"
    and len: "length tags = min 6 (length ?xs)"
    and nth: "\<forall>k < length tags. \<exists>name type.
                get_prop (?xs ! k) ''name'' = Inr name
              \<and> get_prop (?xs ! k) ''type'' = Inr type
              \<and> tags ! k =
                  Elem ''span''
                    [(''key'', Attr (JNum (of_nat k))),
                     (''className'', Attr (JStr ''entity-tag''))]
                    [Val name, Text '' ('', Val type, Text '')'']"
    by blast
  from len have len6: "length tags = 6"
    by simp
  have t0: "tags ! 0 = Elem ''span'' [(''key'', Attr (JNum 0)), (''className'', Attr (JStr ''entity-tag''))]
            [Val (JStr ''a''), Text '' ('', Val (JStr ''ORG''), Text '')'']"
    using nth[rule_format, of 0] len6 by auto
  have t1: "tags ! 1 = Elem ''span'' [(''key'', Attr (JNum 1)), (''className'', Attr (JStr ''entity-tag''))]
            [Val (JStr ''b''), Text '' ('', Val (JStr ''ORG''), Text '')'']"
    using nth[rule_format, of 1] len6 by auto
  have t2: "tags ! 2 = Elem ''span'' [(''key'', Attr (JNum 2)), (''className'', Attr (JStr ''entity-tag''))]
            [Val (JStr ''c''), Text '' ('', Val (JStr ''ORG''), Text '')'']"
    using nth[rule_format, of 2] len6 by auto
  have t3: "tags ! 3 = Elem ''span'' [(''key'', Attr (JNum 3)), (''className'', Attr (JStr ''entity-tag''))]
            [Val (JStr ''d''), Text '' ('', Val (JStr ''LOC''), Text '')'']"
    using nth[rule_format, of 3] len6 by auto
  have t4: "tags ! 4 = Elem ''span'' [(''key'', Attr (JNum 4)), (''className'', Attr (JStr ''entity-tag''))]
            [Val (JStr ''e''), Text '' ('', Val (JStr ''LOC''), Text '')'']"
    using nth[rule_format, of 4] len6 by auto
  have t5: "tags ! 5 = Elem ''span'' [(''key'', Attr (JNum 5)), (''className'', Attr (JStr ''entity-tag''))]
            [Val (JStr ''f''), Text '' ('', Val (JStr ''LOC''), Text '')'']"
    using nth[rule_format, of 5] len6 by auto
  have "tags = [tags ! 0, tags ! 1, tags ! 2, tags ! 3, tags ! 4, tags ! 5]"
    using len6 by (intro nth_equalityI) (auto simp: nth_Cons' less_Suc_eq numeral_eq_Suc)
  with t0 t1 t2 t3 t4 t5 have all: "tags =
      [Elem ''span'' [(''key'', Attr (JNum 0)), (''className'', Attr (JStr ''entity-tag''))]
            [Val (JStr ''a''), Text '' ('', Val (JStr ''ORG''), Text '')''],
          Elem ''span'' [(''key'', Attr (JNum 1)), (''className'', Attr (JStr ''entity-tag''))]
            [Val (JStr ''b''), Text '' ('', Val (JStr ''ORG''), Text '')''],
          Elem ''span'' [(''key'', Attr (JNum 2)), (''className'', Attr (JStr ''entity-tag''))]
            [Val (JStr ''c''), Text '' ('', Val (JStr ''ORG''), Text '')''],
          Elem ''span'' [(''key'', Attr (JNum 3)), (''className'', Attr (JStr ''entity-tag''))]
            [Val (JStr ''d''), Text '' ('', Val (JStr ''LOC''), Text '')''],
          Elem ''span'' [(''key'', Attr (JNum 4)), (''className'', Attr (JStr ''entity-tag''))]
            [Val (JStr ''e''), Text '' ('', Val (JStr ''LOC''), Text '')''],
          Elem ''span'' [(''key'', Attr (JNum 5)), (''className'', Attr (JStr ''entity-tag''))]
            [Val (JStr ''f''), Text '' ('', Val (JStr ''LOC''), Text '')'']]"
    by simp
  from sec all have sec': "entities_section sample_runtime ?article =
      Inr (Elem ''div'' [(''className'', Attr (JStr ''entities''))]
          [Elem ''strong'' [] [Text ''Key Entities:''],
           Elem ''div'' [(''className'', Attr (JStr ''entity-tags''))]
             [Many
                [Elem ''span'' [(''key'', Attr (JNum 0)), (''className'', Attr (JStr ''entity-tag''))]
            [Val (JStr ''a''), Text '' ('', Val (JStr ''ORG''), Text '')''],
          Elem ''span'' [(''key'', Attr (JNum 1)), (''className'', Attr (JStr ''entity-tag''))]
            [Val (JStr ''b''), Text '' ('', Val (JStr ''ORG''), Text '')''],
          Elem ''span'' [(''key'', Attr (JNum 2)), (''className'', Attr (JStr ''entity-tag''))]
            [Val (JStr ''c''), Text '' ('', Val (JStr ''ORG''), Text '')''],
          Elem ''span'' [(''key'', Attr (JNum 3)), (''className'', Attr (JStr ''entity-tag''))]
            [Val (JStr ''d''), Text '' ('', Val (JStr ''LOC''), Text '')''],
          Elem ''span'' [(''key'', Attr (JNum 4)), (''className'', Attr (JStr ''entity-tag''))]
            [Val (JStr ''e''), Text '' ('', Val (JStr ''LOC''), Text '')''],
          Elem ''span'' [(''key'', Attr (JNum 5)), (''className'', Attr (JStr ''entity-tag''))]
            [Val (JStr ''f''), Text '' ('', Val (JStr ''LOC''), Text '')'']],
              Elem ''span'' [(''className'', Attr (JStr ''entity-tag more''))]
                [Text ''+'', Val (JNum 2), Text '' more'']]])"
    by simp
  have absent: "\<exists>v. entities_section sample_runtime (JObj [(''title'', JStr ''A'')]) = Inr (Val v)
      \<and> renders_nothing v"
    using entities_section_first_six [of "JObj [(''title'', JStr ''A'')]" "[]" sample_runtime]
    by simp
  from sec' absent show ?thesis
    by blast
qed

text \<open>
  C10. The articles \<open>{sentiment_overall: "neutral", sentiment_score: 0}\<close> and
  \<open>{bias_overall: "left-leaning", bias_score: 0}\<close>: the last child of the badge is the
  number 0, which is put in the document as text; with the score absent the last child
  is \<open>undefined\<close>, which puts nothing there.
\<close>

theorem zero_score_renders_zero:
  "sentiment_badge sample_runtime
       (JObj [(''sentiment_overall'', JStr ''neutral''), (''sentiment_score'', JNum 0)])
     = Inr (Elem ''span'' [(''className'', Attr (JStr ''badge sentiment-neutral''))]
              [Text ''Sentiment: '', Val (JStr ''neutral''), Val (JNum 0)])
   \<and> sentiment_badge sample_runtime (JObj [(''sentiment_overall'', JStr ''neutral'')])
     = Inr (Elem ''span'' [(''className'', Attr (JStr ''badge sentiment-neutral''))]
              [Text ''Sentiment: '', Val (JStr ''neutral''), Val JUndefined])
   \<and> bias_badge sample_runtime
       (JObj [(''bias_overall'', JStr ''left-leaning''), (''bias_score'', JNum 0)])
     = Inr (Elem ''span'' [(''className'', Attr (JStr ''badge bias-leftleaning''))]
              [Text ''Bias: '', Val (JStr ''left-leaning''), Val (JNum 0)])
   \<and> bias_badge sample_runtime (JObj [(''bias_overall'', JStr ''left-leaning'')])
     = Inr (Elem ''span'' [(''className'', Attr (JStr ''badge bias-leftleaning''))]
              [Text ''Bias: '', Val (JStr ''left-leaning''), Val JUndefined])
   \<and> \<not> renders_nothing (JNum 0) \<and> renders_nothing JUndefined"
  by (simp add: sentiment_badge_def bias_badge_def score_suffix_def js_and_def js_or_def)

end
